theory Spec2Isabelle
  imports Main
begin

section \<open>pg-transactions: connection and transaction handles over a pooled client\<close>

text \<open>
  A shallow embedding of \<^verbatim>\<open>DBConnection.js\<close>, \<^verbatim>\<open>DBTransaction.js\<close> and
  \<^verbatim>\<open>Metrics.js\<close>. The library is written in callback style; the embedding keeps that
  style: an operation takes its callback as a function and returns the completion of the
  whole call. A completion is a pair of an optional uncaught exception and the world in
  which the call ended. The asynchronous driver is modelled as answering at once, so a
  call and the continuation it schedules run back to back.
\<close>

subsection \<open>JavaScript values that cross the interface\<close>

type_synonym ref = nat

datatype jsval = JNum int | JStr string | JBool bool | JNull

text \<open>
  An argument in a parameter position of \<^verbatim>\<open>query\<close>, \<^verbatim>\<open>commit\<close> or \<^verbatim>\<open>rollback\<close>:
  it may be missing (\<^verbatim>\<open>undefined\<close>), \<^verbatim>\<open>null\<close>, a string, an array of values or a
  function.
\<close>

datatype 'f jsarg =
    ArgUndefined
  | ArgNull
  | ArgString string
  | ArgArray "jsval list"
  | ArgFun 'f

text \<open>The first argument of a node-style callback: \<^verbatim>\<open>null\<close>, \<^verbatim>\<open>undefined\<close> or an Error object.\<close>

datatype js_err = Null | Undefined | Error string

record result =
  rowCount :: nat
  rows :: "(string \<times> jsval) list list"

text \<open>Exceptions that leave a call uncaught.\<close>

datatype exn =
    PoolSizeError    \<comment> \<open>\<^verbatim>\<open>Error("DBConnection: Couldn't get pool size. ...")\<close>\<close>
  | TypeError        \<comment> \<open>calling something that is not a function, or a method of \<^verbatim>\<open>undefined\<close>\<close>
  | UserError string \<comment> \<open>thrown by a caller's callback\<close>

subsection \<open>What the library does not own\<close>

text \<open>
  The state of the \<^verbatim>\<open>pg\<close> module, the process environment, the clock and the database.
  \<^verbatim>\<open>pg.pools.all\<close> is an object; its entries are listed in key order, an entry holding
  \<open>None\<close> for a \<^verbatim>\<open>null\<close> pool and \<open>Some n\<close> for a pool whose \<^verbatim>\<open>getPoolSize()\<close> is \<open>n\<close>.
  \<open>env_PGBOUNCER_MAX_CLIENT_CONN\<close> is \<open>None\<close> when the variable is unset; a value stored
  in \<^verbatim>\<open>process.env\<close> is always a string.
\<close>

record 'db ext =
  pg_defaults_poolSize :: int
  pg_pools_all :: "(string \<times> nat option) list"
  env_PGBOUNCER_MAX_CLIENT_CONN :: "string option"
  date_now :: int
  database :: 'db

text \<open>
  \<^verbatim>\<open>client.query(sql, values, callback)\<close> of the driver: the answer \<^verbatim>\<open>(err, res)\<close> it
  hands to the callback, and what it did to the outside (which includes whatever else
  happened while the statement was in flight). The release callback that \<^verbatim>\<open>pg.connect\<close>
  hands out acts on the outside only. The driver is taken to call back exactly once, and
  neither the driver nor the release callback throws.
\<close>

type_synonym 'db client_query =
  "unit jsarg \<Rightarrow> unit jsarg \<Rightarrow> 'db ext \<Rightarrow> (js_err \<times> result option) \<times> 'db ext"

type_synonym 'db release_callback = "bool \<Rightarrow> 'db ext \<Rightarrow> 'db ext"

text \<open>\<^verbatim>\<open>pg.connect(config, callback)\<close>: the \<^verbatim>\<open>(err, client, release)\<close> it calls back with.\<close>

type_synonym 'db pg_connect =
  "string \<Rightarrow> 'db ext \<Rightarrow> (js_err \<times> 'db client_query \<times> 'db release_callback) \<times> 'db ext"

subsection \<open>Objects of the library\<close>

text \<open>\<^verbatim>\<open>function(client, releaseFn) { this.client = ...; this.releaseFn = ...; this._released = false }\<close>\<close>

record 'db DBConnection =
  client :: "'db client_query"
  releaseFn :: "'db release_callback"
  released :: bool

text \<open>\<^verbatim>\<open>function (conn) { this.conn = conn; }\<close>: a reference to the connection object.\<close>

record DBTransaction =
  conn :: ref

text \<open>
  Observable effects, in the order they happen: a line printed by the Metrics stub
  (\<^verbatim>\<open>console.log(key, value)\<close>) and an invocation of a handle's stored release callback.
\<close>

datatype event = ConsoleLog string int | ReleaseFn ref bool

text \<open>
  The world: the outside, the connection objects allocated so far (a reference is an
  index into \<open>heap\<close>), and the effects so far.
\<close>

record 'db world =
  ext :: "'db ext"
  heap :: "'db DBConnection list"
  events :: "event list"

type_synonym 'db comp = "'db world \<Rightarrow> exn option \<times> 'db world"

text \<open>Statement sequencing: an exception of the first statement skips the second.\<close>

definition and_then :: "'db comp \<Rightarrow> 'db comp \<Rightarrow> 'db comp" where
  "and_then m k w = (case m w of (Some x, w') \<Rightarrow> (Some x, w') | (None, w') \<Rightarrow> k w')"

fun truthy_err :: "js_err \<Rightarrow> bool" where
  "truthy_err (Error m) = True"
| "truthy_err Null = False"
| "truthy_err Undefined = False"

fun truthy_arg :: "'f jsarg \<Rightarrow> bool" where
  "truthy_arg ArgUndefined = False"
| "truthy_arg ArgNull = False"
| "truthy_arg (ArgString s) = (s \<noteq> [])"
| "truthy_arg (ArgArray xs) = True"
| "truthy_arg (ArgFun f) = True"

text \<open>\<^verbatim>\<open>x === null || typeof x === "undefined"\<close>\<close>

fun nullish :: "'f jsarg \<Rightarrow> bool" where
  "nullish ArgUndefined = True"
| "nullish ArgNull = True"
| "nullish (ArgString s) = False"
| "nullish (ArgArray xs) = False"
| "nullish (ArgFun f) = False"

text \<open>What the driver sees of an argument: a function is opaque to it.\<close>

definition erase :: "'f jsarg \<Rightarrow> unit jsarg" where
  "erase a = map_jsarg (\<lambda>f. ()) a"

text \<open>Calling \<^verbatim>\<open>cb(a)\<close> and \<^verbatim>\<open>cb(a, b)\<close>: a TypeError unless \<^verbatim>\<open>cb\<close> is a function.\<close>

definition call1 :: "('a \<Rightarrow> 'db comp) jsarg \<Rightarrow> 'a \<Rightarrow> 'db comp" where
  "call1 cb a w = (case cb of ArgFun f \<Rightarrow> f a w | _ \<Rightarrow> (Some TypeError, w))"

definition call2 :: "('a \<Rightarrow> 'b \<Rightarrow> 'db comp) jsarg \<Rightarrow> 'a \<Rightarrow> 'b \<Rightarrow> 'db comp" where
  "call2 cb a b w = (case cb of ArgFun f \<Rightarrow> f a b w | _ \<Rightarrow> (Some TypeError, w))"

text \<open>\<^verbatim>\<open>if (cb) { cb(a); }\<close>\<close>

definition if_cb :: "('a \<Rightarrow> 'db comp) jsarg \<Rightarrow> 'a \<Rightarrow> 'db comp" where
  "if_cb cb a w = (if truthy_arg cb then call1 cb a w else (None, w))"

subsection \<open>Metrics.js\<close>

definition Metrics_measure :: "string \<Rightarrow> int \<Rightarrow> 'db world \<Rightarrow> 'db world" where
  "Metrics_measure key v w = w\<lparr>events := events w @ [ConsoleLog key v]\<rparr>"

definition Metrics_timing :: "string \<Rightarrow> int \<Rightarrow> 'db world \<Rightarrow> 'db world" where
  "Metrics_timing key startTime w =
     (let diff = date_now (ext w) - startTime
      in w\<lparr>events := events w @ [ConsoleLog key diff]\<rparr>)"

definition Metrics_increment :: "string \<Rightarrow> 'db world \<Rightarrow> 'db world" where
  "Metrics_increment key w = w\<lparr>events := events w @ [ConsoleLog key 1]\<rparr>"

subsection \<open>Pool size and pool utilization\<close>

text \<open>
  \<^verbatim>\<open>parseInt(string, 10)\<close> as ECMAScript defines it: leading white space is skipped, one
  sign is read, then the longest run of decimal digits; no digit gives \<^verbatim>\<open>NaN\<close>, here
  \<open>None\<close>. Strings are byte strings, so only the ASCII white space is recognised. A
  JavaScript number is a double; the integers here are exact, as doubles are up to
  \<open>2 ^ 53\<close>.
\<close>

definition isWhiteSpace :: "char \<Rightarrow> bool" where
  "isWhiteSpace c = (of_char c \<in> {9, 10, 11, 12, 13, 32 :: nat})"

definition isDigit :: "char \<Rightarrow> bool" where
  "isDigit c = (48 \<le> (of_char c :: nat) \<and> (of_char c :: nat) \<le> 57)"

definition digitValue :: "char \<Rightarrow> nat" where
  "digitValue c = of_char c - 48"

definition mathInt :: "string \<Rightarrow> nat" where
  "mathInt Z = foldl (\<lambda>a c. 10 * a + digitValue c) 0 Z"

definition parseInt10 :: "string \<Rightarrow> int option" where
  "parseInt10 inputString =
     (let S = dropWhile isWhiteSpace inputString;
          (sign, S') = (case S of
                          [] \<Rightarrow> (1, [])
                        | c # r \<Rightarrow> if c = CHR ''-'' then (- 1, r)
                                   else if c = CHR ''+'' then (1, r) else (1, S));
          Z = takeWhile isDigit S'
      in if Z = [] then None else Some (sign * int (mathInt Z)))"

definition DEFAULT_CONNECTION_POOL_SIZE :: int where
  "DEFAULT_CONNECTION_POOL_SIZE = 100"

text \<open>
  \<^verbatim>\<open>DBConnection._getPoolSize\<close>. When the variable is unset, \<^verbatim>\<open>parseInt\<close> reads
  \<^verbatim>\<open>String(undefined)\<close>; a comparison with \<^verbatim>\<open>NaN\<close> is false.
\<close>

definition getPoolSize :: "'db ext \<Rightarrow> int" where
  "getPoolSize e =
     (let defaultPoolSize =
            parseInt10 (case env_PGBOUNCER_MAX_CLIENT_CONN e of
                          None \<Rightarrow> ''undefined'' | Some s \<Rightarrow> s)
      in case defaultPoolSize of
           Some n \<Rightarrow> if n > 0 then n else DEFAULT_CONNECTION_POOL_SIZE
         | None \<Rightarrow> DEFAULT_CONNECTION_POOL_SIZE)"

definition setPoolSize :: "'db world \<Rightarrow> 'db world" where
  "setPoolSize w = w\<lparr>ext := (ext w)\<lparr>pg_defaults_poolSize := getPoolSize (ext w)\<rparr>\<rparr>"

text \<open>
  \<^verbatim>\<open>key = Object.keys(pg.pools.all)[0]\<close>; with a key and a pool under it, the pool's size;
  otherwise the function throws.
\<close>

definition getPoolUtilization :: "'db ext \<Rightarrow> exn + nat" where
  "getPoolUtilization e =
     (case pg_pools_all e of
        [] \<Rightarrow> Inl PoolSizeError
      | (key, pool) # rest \<Rightarrow>
          (case pool of
             None \<Rightarrow> Inl PoolSizeError
           | Some poolSize \<Rightarrow> Inr poolSize))"

subsection \<open>DBConnection.js\<close>

text \<open>
  \<^verbatim>\<open>DBConnection.prototype.release\<close>. A method called on a reference that holds no
  object is a TypeError.
\<close>

definition DBConnection_release :: "ref \<Rightarrow> bool \<Rightarrow> 'db comp" where
  "DBConnection_release this dispose w =
     (if this < length (heap w) then
        let c = heap w ! this in
        if released c then (None, w)
        else
          let w1 = w\<lparr>ext := releaseFn c dispose (ext w),
                     events := events w @ [ReleaseFn this dispose]\<rparr>;
              w2 = w1\<lparr>heap := (heap w1)[this := c\<lparr>released := True\<rparr>]\<rparr>
          in case getPoolUtilization (ext w2) of
               Inl x \<Rightarrow> (Some x, w2)
             | Inr poolUtilization \<Rightarrow>
                 (None, Metrics_measure ''db.txn_conn_pool.release.count''
                          (int poolUtilization) w2)
      else (Some TypeError, w))"

type_synonym 'db query_callback = "js_err \<Rightarrow> result option \<Rightarrow> 'db comp"

text \<open>\<^verbatim>\<open>DBConnection.prototype.query = function(sql, values, cb)\<close>\<close>

definition DBConnection_query ::
  "ref \<Rightarrow> 'db query_callback jsarg \<Rightarrow> 'db query_callback jsarg \<Rightarrow>
   'db query_callback jsarg \<Rightarrow> 'db comp" where
  "DBConnection_query this sql values0 cb0 w =
     (let (values, cb) = (if nullish cb0 then (ArgArray [], values0) else (values0, cb0))
      in if this < length (heap w) then
           let ((err, res), e) = client (heap w ! this) (erase sql) (erase values) (ext w);
               w1 = w\<lparr>ext := e\<rparr>
           in if truthy_err err
              then and_then (DBConnection_release this True) (call2 cb err None) w1
              else call2 cb Null res w1
         else (Some TypeError, w))"

text \<open>
  \<^verbatim>\<open>DBConnection.get = function(config, cb)\<close>, with \<^verbatim>\<open>pg.connect\<close> as a parameter. The
  \<^verbatim>\<open>try { ... } catch (undefined) {}\<close> swallows the exception of the utilization lookup.
\<close>

definition DBConnection_get ::
  "'db pg_connect \<Rightarrow> string \<Rightarrow> (js_err \<Rightarrow> ref option \<Rightarrow> 'db comp) \<Rightarrow> 'db comp" where
  "DBConnection_get connect config cb w =
     (let w0 = setPoolSize w;
          start = date_now (ext w0);
          ((err, rawClient, release), e) = connect config (ext w0);
          w1 = w0\<lparr>ext := e\<rparr>
      in if err \<noteq> Null \<and> err \<noteq> Undefined then cb err None w1
         else
           let w2 = (case getPoolUtilization (ext w1) of
                       Inl x \<Rightarrow> w1
                     | Inr poolUtilization \<Rightarrow>
                         Metrics_measure ''db.txn_conn_pool.count'' (int poolUtilization) w1);
               w3 = Metrics_measure ''db.txn_conn_pool.total'' (pg_defaults_poolSize (ext w2)) w2;
               w4 = Metrics_increment ''db.txn_conn_pool.get'' w3;
               w5 = Metrics_timing ''db.txn_conn_pool.get.latency'' start w4;
               w6 = w5\<lparr>heap := heap w5 @
                       [\<lparr>client = rawClient, releaseFn = release, released = False\<rparr>]\<rparr>
           in cb err (Some (length (heap w5))) w6)"

text \<open>\<^verbatim>\<open>DBConnection.begin = function(config, cb)\<close>\<close>

definition DBConnection_begin ::
  "'db pg_connect \<Rightarrow> string \<Rightarrow> (js_err \<Rightarrow> DBTransaction option \<Rightarrow> 'db comp) \<Rightarrow> 'db comp" where
  "DBConnection_begin connect config cb =
     DBConnection_get connect config
       (\<lambda>err connection.
          if truthy_err err then cb err None
          else (case connection of
                  None \<Rightarrow> (\<lambda>w. (Some TypeError, w))
                | Some c \<Rightarrow>
                    DBConnection_query c (ArgString ''BEGIN'')
                      (ArgFun (\<lambda>err res w.
                         if truthy_err err
                         then cb err None (Metrics_increment ''db.txn.begin.error'' w)
                         else cb Null (Some \<lparr>conn = c\<rparr>)
                                (Metrics_increment ''db.txn.begin.success'' w)))
                      ArgUndefined))"

subsection \<open>DBTransaction.js\<close>

definition DBTransaction_rollback :: "DBTransaction \<Rightarrow> (js_err \<Rightarrow> 'db comp) jsarg \<Rightarrow> 'db comp" where
  "DBTransaction_rollback this cb =
     DBConnection_query (conn this) (ArgString ''ROLLBACK'')
       (ArgFun (\<lambda>err res w.
          if truthy_err err
          then if_cb cb err (Metrics_increment ''db.txn.rollback.error'' w)
          else and_then (DBConnection_release (conn this) True) (if_cb cb Null)
                 (Metrics_increment ''db.txn.rollback.success'' w)))
       ArgUndefined"

text \<open>
  \<^verbatim>\<open>this.conn.query.apply(this.conn, arguments)\<close>: the arguments are passed on by
  position, and a position past the end of \<^verbatim>\<open>arguments\<close> reads \<^verbatim>\<open>undefined\<close>.
\<close>

definition argument :: "'f jsarg list \<Rightarrow> nat \<Rightarrow> 'f jsarg" where
  "argument arguments i = (if i < length arguments then arguments ! i else ArgUndefined)"

definition DBTransaction_query :: "DBTransaction \<Rightarrow> 'db query_callback jsarg list \<Rightarrow> 'db comp" where
  "DBTransaction_query this arguments =
     DBConnection_query (conn this)
       (argument arguments 0) (argument arguments 1) (argument arguments 2)"

definition DBTransaction_commit :: "DBTransaction \<Rightarrow> (js_err \<Rightarrow> 'db comp) jsarg \<Rightarrow> 'db comp" where
  "DBTransaction_commit this cb =
     DBConnection_query (conn this) (ArgString ''COMMIT'')
       (ArgFun (\<lambda>err res w.
          if truthy_err err
          then if_cb cb err (Metrics_increment ''db.txn.commit.error'' w)
          else and_then (DBConnection_release (conn this) True) (if_cb cb Null)
                 (Metrics_increment ''db.txn.commit.success'' w)))
       ArgUndefined"

subsection \<open>Auxiliary notions for the statements\<close>

text \<open>
  The world right after \<^verbatim>\<open>this.releaseFn(dispose); this._released = true;\<close> ran on
  handle \<open>this\<close>: the release callback acted on the outside, its invocation is on the
  record, the flag is set.
\<close>

definition after_release :: "ref \<Rightarrow> bool \<Rightarrow> 'db world \<Rightarrow> 'db world" where
  "after_release this dispose w =
     w\<lparr>ext := releaseFn (heap w ! this) dispose (ext w),
       events := events w @ [ReleaseFn this dispose],
       heap := (heap w)[this := (heap w ! this)\<lparr>released := True\<rparr>]\<rparr>"


text \<open>The dispose flags the release callback of handle \<open>this\<close> was invoked with, in order.\<close>

fun invocations :: "ref \<Rightarrow> event list \<Rightarrow> bool list" where
  "invocations this [] = []"
| "invocations this (ReleaseFn r dispose # evs) =
     (if r = this then dispose # invocations this evs else invocations this evs)"
| "invocations this (ConsoleLog key v # evs) = invocations this evs"

text \<open>
  The world in which \<^verbatim>\<open>get\<close> hands a connection to its callback, from the world \<open>w1\<close>
  in which \<^verbatim>\<open>pg.connect\<close> called back: the metrics are printed and the new object is
  allocated.
\<close>

definition handed_out ::
  "'db client_query \<Rightarrow> 'db release_callback \<Rightarrow> int \<Rightarrow> 'db world \<Rightarrow> 'db world" where
  "handed_out rawClient release start w1 =
     w1\<lparr>events := events w1 @
            (case getPoolUtilization (ext w1) of
               Inl x \<Rightarrow> []
             | Inr n \<Rightarrow> [ConsoleLog ''db.txn_conn_pool.count'' (int n)]) @
            [ConsoleLog ''db.txn_conn_pool.total'' (pg_defaults_poolSize (ext w1)),
             ConsoleLog ''db.txn_conn_pool.get'' 1,
             ConsoleLog ''db.txn_conn_pool.get.latency'' (date_now (ext w1) - start)],
        heap := heap w1 @ [\<lparr>client = rawClient, releaseFn = release, released = False\<rparr>]\<rparr>"



subsection \<open>Concrete collaborators for the examples\<close>

text \<open>
  A driver that answers every statement with one row, one that fails every statement
  (as the tests stub \<^verbatim>\<open>conn.client.query\<close>), and a release callback that, when asked
  to dispose, takes the connection out of each pool's count.
\<close>

definition answering_client :: "unit client_query" where
  "answering_client sql values e =
     ((Null, Some \<lparr>rowCount = 1, rows = [[(''foo'', JNum 1)]]\<rparr>), e)"


text \<open>
  \<^verbatim>\<open>pg.end()\<close> is called while a statement is in flight, and the statement fails: the
  pools are gone from \<^verbatim>\<open>pg.pools.all\<close> when the client reports the error.
\<close>

definition terminated_client :: "unit client_query" where
  "terminated_client sql values e =
     ((Error ''connection terminated'', None), e\<lparr>pg_pools_all := []\<rparr>)"

definition pool_release :: "unit release_callback" where
  "pool_release dispose e =
     e\<lparr>pg_pools_all :=
         map (\<lambda>(key, pool). (key, map_option (\<lambda>n. if dispose then n - 1 else n) pool))
           (pg_pools_all e)\<rparr>"

definition ext_one_pool :: "unit ext" where
  "ext_one_pool =
     \<lparr>pg_defaults_poolSize = 100, pg_pools_all = [(''{}'', Some 1)],
      env_PGBOUNCER_MAX_CLIENT_CONN = None, date_now = 0, database = ()\<rparr>"

definition ext_no_pool :: "unit ext" where
  "ext_no_pool = ext_one_pool\<lparr>pg_pools_all := []\<rparr>"

definition handle :: "unit client_query \<Rightarrow> unit DBConnection" where
  "handle c = \<lparr>client = c, releaseFn = pool_release, released = False\<rparr>"

definition world_of :: "unit ext \<Rightarrow> unit DBConnection list \<Rightarrow> unit world" where
  "world_of e h = \<lparr>ext = e, heap = h, events = []\<rparr>"

definition world_answering :: "unit world" where
  "world_answering = world_of ext_one_pool [handle answering_client]"


definition world_terminated :: "unit world" where
  "world_terminated = world_of ext_one_pool [handle terminated_client]"

text \<open>A caller's callback that prints what it was called with.\<close>

definition printing_callback :: "js_err \<Rightarrow> 'a \<Rightarrow> unit comp" where
  "printing_callback err x w =
     (None, w\<lparr>events := events w @
        [ConsoleLog (case err of Error m \<Rightarrow> ''callback: '' @ m
                     | Null \<Rightarrow> ''callback: null''
                     | Undefined \<Rightarrow> ''callback: undefined'') 0]\<rparr>)"

definition printing_callback1 :: "js_err \<Rightarrow> unit comp" where
  "printing_callback1 err = printing_callback err ()"

text \<open>\<^verbatim>\<open>pg.connect\<close> handing out a client, and \<^verbatim>\<open>pg.connect\<close> failing.\<close>

definition connect_with :: "unit client_query \<Rightarrow> unit pg_connect" where
  "connect_with c config e = ((Null, c, pool_release), e)"

definition connect_failing :: "unit pg_connect" where
  "connect_failing config e =
     ((Error ''pool exhausted'', answering_client, pool_release), e)"


section \<open>Properties\<close>

subsection \<open>Sequencing and release\<close>

lemma and_then_normal: "m w = (None, w') \<Longrightarrow> and_then m k w = k w'"
  by (simp add: and_then_def)

lemma release_released:
  "this < length (heap w) \<Longrightarrow> released (heap w ! this) \<Longrightarrow>
   DBConnection_release this dispose w = (None, w)"
  by (simp add: DBConnection_release_def)

lemma release_unreleased:
  "this < length (heap w) \<Longrightarrow> \<not> released (heap w ! this) \<Longrightarrow>
   DBConnection_release this dispose w =
     (case getPoolUtilization (ext (after_release this dispose w)) of
        Inl x \<Rightarrow> (Some x, after_release this dispose w)
      | Inr n \<Rightarrow>
          (None, Metrics_measure ''db.txn_conn_pool.release.count'' (int n)
                   (after_release this dispose w)))"
  by (simp add: DBConnection_release_def after_release_def Let_def split: sum.splits)







subsection \<open>query\<close>

lemma query_error:
  assumes "this < length (heap w)"
    and "client (heap w ! this) (erase sql) (erase values) (ext w) = ((err, res), e)"
    and "truthy_err err"
  shows "DBConnection_query this sql values (ArgFun cb) w =
           and_then (DBConnection_release this True) (cb err None) (w\<lparr>ext := e\<rparr>)"
proof -
  have "call2 (ArgFun cb) err None = cb err None"
    by (rule ext) (simp add: call2_def)
  with assms show ?thesis
    by (simp add: DBConnection_query_def)
qed

lemma query_success:
  assumes "this < length (heap w)"
    and "client (heap w ! this) (erase sql) (erase values) (ext w) = ((err, res), e)"
    and "\<not> truthy_err err"
  shows "DBConnection_query this sql values (ArgFun cb) w = cb Null res (w\<lparr>ext := e\<rparr>)"
  using assms by (simp add: DBConnection_query_def call2_def)

lemma query_two_arguments:
  "DBConnection_query this sql (ArgFun cb) ArgUndefined =
   DBConnection_query this sql (ArgArray []) (ArgFun cb)"
  by (rule ext) (simp add: DBConnection_query_def)

lemma query_error_unreleased:
  assumes "this < length (heap w)" "\<not> released (heap w ! this)"
    and "client (heap w ! this) (erase sql) (erase values) (ext w) = ((err, res), e)"
    and "truthy_err err"
  shows "DBConnection_query this sql values (ArgFun cb) w =
     (case getPoolUtilization (releaseFn (heap w ! this) True e) of
        Inl x \<Rightarrow> (Some x, after_release this True (w\<lparr>ext := e\<rparr>))
      | Inr n \<Rightarrow>
          cb err None (Metrics_measure ''db.txn_conn_pool.release.count'' (int n)
                         (after_release this True (w\<lparr>ext := e\<rparr>))))"
proof -
  let ?w1 = "w\<lparr>ext := e\<rparr>"
  have h: "this < length (heap ?w1)" "\<not> released (heap ?w1 ! this)"
    using assms by simp_all
  have e: "ext (after_release this True ?w1) = releaseFn (heap w ! this) True e"
    by (simp add: after_release_def)
  show ?thesis
    unfolding query_error[OF assms(1,3,4)] and_then_def release_unreleased[OF h] e
    by (simp split: sum.splits)
qed

lemma query_error_released:
  assumes "this < length (heap w)" "released (heap w ! this)"
    and "client (heap w ! this) (erase sql) (erase values) (ext w) = ((err, res), e)"
    and "truthy_err err"
  shows "DBConnection_query this sql values (ArgFun cb) w = cb err None (w\<lparr>ext := e\<rparr>)"
proof -
  have "DBConnection_release this True (w\<lparr>ext := e\<rparr>) = (None, w\<lparr>ext := e\<rparr>)"
    using assms(1,2) by (simp add: release_released)
  then show ?thesis
    unfolding query_error[OF assms(1,3,4)] by (rule and_then_normal)
qed

text \<open>
  C10. \<^verbatim>\<open>query(sql, cb)\<close> is \<^verbatim>\<open>query(sql, [], cb)\<close>: with the third argument missing
  (or \<^verbatim>\<open>null\<close>) the second is taken as the callback and the values become the empty
  array, before the client is called.
\<close>

theorem query_omitted_values:
  "DBConnection_query this sql (ArgFun cb) ArgUndefined =
     DBConnection_query this sql (ArgArray []) (ArgFun cb) \<and>
   DBConnection_query this sql (ArgFun cb) ArgNull =
     DBConnection_query this sql (ArgArray []) (ArgFun cb)"
  by (auto simp add: DBConnection_query_def fun_eq_iff)

text \<open>
  C9. \<^verbatim>\<open>DBTransaction.prototype.query\<close> is the owned connection's \<^verbatim>\<open>query\<close> on the
  same arguments, whatever they are and however many: the same completion, callback
  invocation and effect on the world, the release on error included.
\<close>

theorem transaction_query_forwards:
  "DBTransaction_query txn [sql, values, cb] = DBConnection_query (conn txn) sql values cb \<and>
   DBTransaction_query txn [sql, cb] = DBConnection_query (conn txn) sql cb ArgUndefined \<and>
   DBTransaction_query txn arguments =
     DBConnection_query (conn txn)
       (argument arguments 0) (argument arguments 1) (argument arguments 2)"
  by (simp add: DBTransaction_query_def argument_def)

subsection \<open>Pool size\<close>

















subsection \<open>get\<close>

lemma setPoolSize_frame:
  "heap (setPoolSize w) = heap w" "events (setPoolSize w) = events w"
  "date_now (ext (setPoolSize w)) = date_now (ext w)"
  "(setPoolSize w)\<lparr>ext := e\<rparr> = w\<lparr>ext := e\<rparr>"
  by (simp_all add: setPoolSize_def)

lemma get_checkout_ok:
  assumes "connect config (ext (setPoolSize w)) = ((err, c, r), e)"
    and "err = Null \<or> err = Undefined"
  shows "DBConnection_get connect config cb w =
           cb err (Some (length (heap w))) (handed_out c r (date_now (ext w)) (w\<lparr>ext := e\<rparr>))"
proof -
  have "getPoolUtilization e = Inl x \<Longrightarrow> ?thesis" for x
    using assms
    by (auto simp add: DBConnection_get_def setPoolSize_frame handed_out_def
          Metrics_measure_def Metrics_increment_def Metrics_timing_def)
  moreover have "getPoolUtilization e = Inr n \<Longrightarrow> ?thesis" for n
    using assms
    by (auto simp add: DBConnection_get_def setPoolSize_frame handed_out_def
          Metrics_measure_def Metrics_increment_def Metrics_timing_def)
  ultimately show ?thesis
    by (cases "getPoolUtilization e") auto
qed

text \<open>
  C7. When \<^verbatim>\<open>pg.connect\<close> calls back with an error (anything but \<^verbatim>\<open>null\<close> and
  \<^verbatim>\<open>undefined\<close>), \<^verbatim>\<open>get\<close> calls its callback with that error and no handle, in a
  world that differs from the initial one only in the outside that \<^verbatim>\<open>pg.connect\<close>
  left: no object was allocated, nothing was printed, no release callback was invoked.
\<close>

theorem get_checkout_error:
  assumes "connect config (ext (setPoolSize w)) = ((err, c, r), e)"
    and "err \<noteq> Null" and "err \<noteq> Undefined"
  shows "DBConnection_get connect config cb w = cb err None (w\<lparr>ext := e\<rparr>) \<and>
         heap (w\<lparr>ext := e\<rparr>) = heap w \<and> events (w\<lparr>ext := e\<rparr>) = events w"
  using assms by (simp add: DBConnection_get_def setPoolSize_frame)

theorem get_checkout_error_witness:
  "connect_failing ''{}'' (ext (setPoolSize world_answering)) =
     ((Error ''pool exhausted'', answering_client, pool_release),
      ext_one_pool\<lparr>pg_defaults_poolSize := 100\<rparr>) \<and>
   Error ''pool exhausted'' \<noteq> Null \<and> Error ''pool exhausted'' \<noteq> Undefined \<and>
   DBConnection_get connect_failing ''{}'' printing_callback world_answering =
     (None, \<lparr>ext = ext_one_pool, heap = [handle answering_client],
             events = [ConsoleLog ''callback: pool exhausted'' 0]\<rparr>)"
proof -
  have g: "getPoolSize ext_one_pool = 100"
    by (simp add: getPoolSize_def ext_one_pool_def parseInt10_def isWhiteSpace_def
          isDigit_def DEFAULT_CONNECTION_POOL_SIZE_def)
  have c: "connect_failing ''{}'' (ext (setPoolSize world_answering)) =
     ((Error ''pool exhausted'', answering_client, pool_release),
      ext_one_pool\<lparr>pg_defaults_poolSize := 100\<rparr>)"
    by (simp add: connect_failing_def setPoolSize_def world_answering_def world_of_def g)
  have e: "ext_one_pool\<lparr>pg_defaults_poolSize := 100\<rparr> = ext_one_pool"
    by (simp add: ext_one_pool_def)
  show ?thesis
    using get_checkout_error[where connect = connect_failing and config = "''{}''"
            and w = world_answering and cb = printing_callback, OF c] c
    by (simp add: printing_callback_def world_answering_def world_of_def e)
qed

subsection \<open>commit and rollback\<close>

lemma erase_plain:
  "erase (ArgString s) = ArgString s" "erase (ArgArray xs) = ArgArray xs"
  by (simp_all add: erase_def)

lemma release_then:
  assumes "this < length (heap w)" "\<not> released (heap w ! this)"
  shows "and_then (DBConnection_release this d) k w =
     (case getPoolUtilization (ext (after_release this d w)) of
        Inl x \<Rightarrow> (Some x, after_release this d w)
      | Inr n \<Rightarrow>
          k (Metrics_measure ''db.txn_conn_pool.release.count'' (int n)
               (after_release this d w)))"
  unfolding and_then_def release_unreleased[OF assms]
  by (simp split: sum.splits)

lemma release_then_released:
  assumes "this < length (heap w)" "released (heap w ! this)"
  shows "and_then (DBConnection_release this d) k w = k w"
  unfolding and_then_def release_released[OF assms] by simp

lemma increment_frame:
  "heap (Metrics_increment key w) = heap w" "ext (Metrics_increment key w) = ext w"
  "events (Metrics_increment key w) = events w @ [ConsoleLog key 1]"
  by (simp_all add: Metrics_increment_def)

lemma commit_statement_ok:
  assumes "conn txn < length (heap w)"
    and "client (heap w ! conn txn) (ArgString ''COMMIT'') (ArgArray []) (ext w) = ((err, res), e)"
    and "\<not> truthy_err err"
  shows "DBTransaction_commit txn cb w =
           and_then (DBConnection_release (conn txn) True) (if_cb cb Null)
             (Metrics_increment ''db.txn.commit.success'' (w\<lparr>ext := e\<rparr>))"
  unfolding DBTransaction_commit_def query_two_arguments
  using assms by (subst query_success[where err = err and res = res and e = e])
    (simp_all add: erase_plain)

lemma rollback_statement_ok:
  assumes "conn txn < length (heap w)"
    and "client (heap w ! conn txn) (ArgString ''ROLLBACK'') (ArgArray []) (ext w) = ((err, res), e)"
    and "\<not> truthy_err err"
  shows "DBTransaction_rollback txn cb w =
           and_then (DBConnection_release (conn txn) True) (if_cb cb Null)
             (Metrics_increment ''db.txn.rollback.success'' (w\<lparr>ext := e\<rparr>))"
  unfolding DBTransaction_rollback_def query_two_arguments
  using assms by (subst query_success[where err = err and res = res and e = e])
    (simp_all add: erase_plain)



lemma terminal_success_unreleased:
  assumes "this < length (heap w)" "\<not> released (heap w ! this)"
  shows "and_then (DBConnection_release this True) k (Metrics_increment key (w\<lparr>ext := e\<rparr>)) =
     (let W = after_release this True (Metrics_increment key (w\<lparr>ext := e\<rparr>))
      in case getPoolUtilization (ext W) of
           Inl x \<Rightarrow> (Some x, W)
         | Inr n \<Rightarrow> k (Metrics_measure ''db.txn_conn_pool.release.count'' (int n) W))"
  using assms by (subst release_then) (simp_all add: increment_frame Let_def)

lemma terminal_success_released:
  assumes "this < length (heap w)" "released (heap w ! this)"
  shows "and_then (DBConnection_release this True) k (Metrics_increment key (w\<lparr>ext := e\<rparr>)) =
           k (Metrics_increment key (w\<lparr>ext := e\<rparr>))"
  using assms by (subst release_then_released) (simp_all add: increment_frame)



lemma after_release_events:
  "events (after_release this d w) = events w @ [ReleaseFn this d]"
  by (simp add: after_release_def)

lemma after_release_flag:
  "this < length (heap w) \<Longrightarrow> released (heap (after_release this d w) ! this)"
  by (simp add: after_release_def)

text \<open>
  C1, as the code has it. When the \<^verbatim>\<open>COMMIT\<close> statement succeeds, \<^verbatim>\<open>commit\<close> prints
  the success metric and then calls \<^verbatim>\<open>release(true)\<close>: on an unreleased handle the
  stored release callback is invoked with dispose \<open>True\<close> and the flag is set, and the
  caller's callback (if any) is called with \<^verbatim>\<open>null\<close> once release has returned; on a
  handle already released the release is a no-op. \<^verbatim>\<open>rollback\<close> does the same on a
  successful \<^verbatim>\<open>ROLLBACK\<close>, under its own metric key.
\<close>

theorem terminal_success_releases_disposing:
  assumes "conn txn < length (heap w)" and "\<not> truthy_err err"
  shows
   "(client (heap w ! conn txn) (ArgString ''COMMIT'') (ArgArray []) (ext w) = ((err, res), e) \<longrightarrow>
       (\<not> released (heap w ! conn txn) \<longrightarrow>
          DBTransaction_commit txn cb w =
            (let W = after_release (conn txn) True
                       (Metrics_increment ''db.txn.commit.success'' (w\<lparr>ext := e\<rparr>))
             in case getPoolUtilization (ext W) of
                  Inl x \<Rightarrow> (Some x, W)
                | Inr n \<Rightarrow>
                    if_cb cb Null
                      (Metrics_measure ''db.txn_conn_pool.release.count'' (int n) W))) \<and>
       (released (heap w ! conn txn) \<longrightarrow>
          DBTransaction_commit txn cb w =
            if_cb cb Null (Metrics_increment ''db.txn.commit.success'' (w\<lparr>ext := e\<rparr>)))) \<and>
    (client (heap w ! conn txn) (ArgString ''ROLLBACK'') (ArgArray []) (ext w) = ((err, res), e) \<longrightarrow>
       (\<not> released (heap w ! conn txn) \<longrightarrow>
          DBTransaction_rollback txn cb w =
            (let W = after_release (conn txn) True
                       (Metrics_increment ''db.txn.rollback.success'' (w\<lparr>ext := e\<rparr>))
             in case getPoolUtilization (ext W) of
                  Inl x \<Rightarrow> (Some x, W)
                | Inr n \<Rightarrow>
                    if_cb cb Null
                      (Metrics_measure ''db.txn_conn_pool.release.count'' (int n) W))) \<and>
       (released (heap w ! conn txn) \<longrightarrow>
          DBTransaction_rollback txn cb w =
            if_cb cb Null (Metrics_increment ''db.txn.rollback.success'' (w\<lparr>ext := e\<rparr>)))) \<and>
    events (after_release (conn txn) True (Metrics_increment key (w\<lparr>ext := e\<rparr>))) =
      events w @ [ConsoleLog key 1, ReleaseFn (conn txn) True] \<and>
    released (heap (after_release (conn txn) True (Metrics_increment key (w\<lparr>ext := e\<rparr>))) !
                conn txn)"
proof -
  have "DBTransaction_commit txn cb w =
          (let W = after_release (conn txn) True
                     (Metrics_increment ''db.txn.commit.success'' (w\<lparr>ext := e\<rparr>))
           in case getPoolUtilization (ext W) of
                Inl x \<Rightarrow> (Some x, W)
              | Inr n \<Rightarrow>
                  if_cb cb Null (Metrics_measure ''db.txn_conn_pool.release.count'' (int n) W))"
    if "client (heap w ! conn txn) (ArgString ''COMMIT'') (ArgArray []) (ext w) = ((err, res), e)"
      and "\<not> released (heap w ! conn txn)"
    unfolding commit_statement_ok[OF assms(1) that(1) assms(2)]
    by (rule terminal_success_unreleased[OF assms(1) that(2)])
  moreover have "DBTransaction_commit txn cb w =
          if_cb cb Null (Metrics_increment ''db.txn.commit.success'' (w\<lparr>ext := e\<rparr>))"
    if "client (heap w ! conn txn) (ArgString ''COMMIT'') (ArgArray []) (ext w) = ((err, res), e)"
      and "released (heap w ! conn txn)"
    unfolding commit_statement_ok[OF assms(1) that(1) assms(2)]
    by (rule terminal_success_released[OF assms(1) that(2)])
  moreover have "DBTransaction_rollback txn cb w =
          (let W = after_release (conn txn) True
                     (Metrics_increment ''db.txn.rollback.success'' (w\<lparr>ext := e\<rparr>))
           in case getPoolUtilization (ext W) of
                Inl x \<Rightarrow> (Some x, W)
              | Inr n \<Rightarrow>
                  if_cb cb Null (Metrics_measure ''db.txn_conn_pool.release.count'' (int n) W))"
    if "client (heap w ! conn txn) (ArgString ''ROLLBACK'') (ArgArray []) (ext w) = ((err, res), e)"
      and "\<not> released (heap w ! conn txn)"
    unfolding rollback_statement_ok[OF assms(1) that(1) assms(2)]
    by (rule terminal_success_unreleased[OF assms(1) that(2)])
  moreover have "DBTransaction_rollback txn cb w =
          if_cb cb Null (Metrics_increment ''db.txn.rollback.success'' (w\<lparr>ext := e\<rparr>))"
    if "client (heap w ! conn txn) (ArgString ''ROLLBACK'') (ArgArray []) (ext w) = ((err, res), e)"
      and "released (heap w ! conn txn)"
    unfolding rollback_statement_ok[OF assms(1) that(1) assms(2)]
    by (rule terminal_success_released[OF assms(1) that(2)])
  moreover have "events (after_release (conn txn) True (Metrics_increment key (w\<lparr>ext := e\<rparr>))) =
      events w @ [ConsoleLog key 1, ReleaseFn (conn txn) True]"
    by (simp add: after_release_events increment_frame)
  moreover have "released (heap (after_release (conn txn) True
      (Metrics_increment key (w\<lparr>ext := e\<rparr>))) ! conn txn)"
    using assms(1) by (simp add: after_release_flag increment_frame)
  ultimately show ?thesis
    by blast
qed

theorem terminal_success_releases_disposing_witness:
  "conn \<lparr>conn = 0\<rparr> < length (heap world_answering) \<and> \<not> truthy_err Null \<and>
   client (heap world_answering ! conn \<lparr>conn = 0\<rparr>) (ArgString ''COMMIT'') (ArgArray [])
     (ext world_answering) =
     ((Null, Some \<lparr>rowCount = 1, rows = [[(''foo'', JNum 1)]]\<rparr>), ext_one_pool) \<and>
   \<not> released (heap world_answering ! conn \<lparr>conn = 0\<rparr>) \<and>
   DBTransaction_commit \<lparr>conn = 0\<rparr> (ArgFun printing_callback1) world_answering =
     (None,
      \<lparr>ext = ext_one_pool\<lparr>pg_pools_all := [(''{}'', Some 0)]\<rparr>,
       heap = [(handle answering_client)\<lparr>released := True\<rparr>],
       events = [ConsoleLog ''db.txn.commit.success'' 1, ReleaseFn 0 True,
                 ConsoleLog ''db.txn_conn_pool.release.count'' 0,
                 ConsoleLog ''callback: null'' 0]\<rparr>)"
proof -
  let ?res = "Some \<lparr>rowCount = 1, rows = [[(''foo'', JNum 1)]]\<rparr>"
  have h: "conn \<lparr>conn = 0\<rparr> < length (heap world_answering)" "\<not> truthy_err Null"
    "\<not> released (heap world_answering ! conn \<lparr>conn = 0\<rparr>)"
    by (simp_all add: world_answering_def world_of_def handle_def)
  have c: "client (heap world_answering ! conn \<lparr>conn = 0\<rparr>) (ArgString ''COMMIT'')
      (ArgArray []) (ext world_answering) = ((Null, ?res), ext_one_pool)"
    by (simp add: world_answering_def world_of_def handle_def answering_client_def)
  from terminal_success_releases_disposing[OF h(1,2), of ?res ext_one_pool
      "ArgFun printing_callback1"] c h(3)
  have "DBTransaction_commit \<lparr>conn = 0\<rparr> (ArgFun printing_callback1) world_answering =
      (let W = after_release (conn \<lparr>conn = 0\<rparr>) True
                 (Metrics_increment ''db.txn.commit.success''
                    (world_answering\<lparr>ext := ext_one_pool\<rparr>))
       in case getPoolUtilization (ext W) of
            Inl x \<Rightarrow> (Some x, W)
          | Inr n \<Rightarrow>
              if_cb (ArgFun printing_callback1) Null
                (Metrics_measure ''db.txn_conn_pool.release.count'' (int n) W))"
    by blast
  then show ?thesis
    using h c
    by (simp add: world_answering_def world_of_def handle_def after_release_def
          Metrics_increment_def Metrics_measure_def getPoolUtilization_def pool_release_def
          ext_one_pool_def if_cb_def call1_def printing_callback1_def printing_callback_def)
qed

theorem commit_success_pooled_counterexample:
  "client (heap world_answering ! 0) (ArgString ''COMMIT'') (ArgArray []) (ext world_answering) =
     ((Null, Some \<lparr>rowCount = 1, rows = [[(''foo'', JNum 1)]]\<rparr>), ext_one_pool) \<and>
   \<not> released (heap world_answering ! 0) \<and>
   events (snd (DBTransaction_commit \<lparr>conn = 0\<rparr> (ArgFun printing_callback1) world_answering)) =
     [ConsoleLog ''db.txn.commit.success'' 1, ReleaseFn 0 True,
      ConsoleLog ''db.txn_conn_pool.release.count'' 0, ConsoleLog ''callback: null'' 0] \<and>
   invocations 0
     (events (snd (DBTransaction_commit \<lparr>conn = 0\<rparr> (ArgFun printing_callback1) world_answering)))
     \<noteq> [False]"
  by (simp add: DBTransaction_commit_def DBConnection_query_def DBConnection_release_def
        and_then_def call2_def erase_def
        world_answering_def world_of_def handle_def answering_client_def
        Metrics_increment_def Metrics_measure_def getPoolUtilization_def pool_release_def
        ext_one_pool_def if_cb_def call1_def printing_callback1_def printing_callback_def)




subsection \<open>The unguarded utilization lookup in release\<close>

text \<open>
  \<^verbatim>\<open>get\<close> wraps its call of \<^verbatim>\<open>_getPoolUtilization\<close> in \<^verbatim>\<open>try\<close>/\<^verbatim>\<open>catch\<close>: when the
  lookup throws, the connection is handed out all the same, and only the utilization
  metric is missing.
\<close>

lemma get_swallows_lookup_failure:
  assumes "connect config (ext (setPoolSize w)) = ((err, c, r), e)"
    and "err = Null \<or> err = Undefined"
    and "getPoolUtilization e = Inl x"
  shows "DBConnection_get connect config cb w =
           cb err (Some (length (heap w)))
             (w\<lparr>ext := e,
                events := events w @
                  [ConsoleLog ''db.txn_conn_pool.total'' (pg_defaults_poolSize e),
                   ConsoleLog ''db.txn_conn_pool.get'' 1,
                   ConsoleLog ''db.txn_conn_pool.get.latency'' (date_now e - date_now (ext w))],
                heap := heap w @ [\<lparr>client = c, releaseFn = r, released = False\<rparr>]\<rparr>)"
  unfolding get_checkout_ok[where connect = connect and config = config, OF assms(1,2)]
  using assms(3) by (simp add: handed_out_def)

text \<open>
  \<^verbatim>\<open>release\<close> calls the same lookup unguarded, after the release callback ran and the
  flag was set: when the lookup throws, the exception leaves \<^verbatim>\<open>release\<close>.
\<close>

lemma release_lookup_failure_propagates:
  assumes "this < length (heap w)" "\<not> released (heap w ! this)"
    and "getPoolUtilization (releaseFn (heap w ! this) dispose (ext w)) = Inl x"
  shows "DBConnection_release this dispose w = (Some x, after_release this dispose w)"
proof -
  have "ext (after_release this dispose w) = releaseFn (heap w ! this) dispose (ext w)"
    by (simp add: after_release_def)
  with assms(3) show ?thesis
    unfolding release_unreleased[OF assms(1,2)] by simp
qed

text \<open>
  C5 at a failing input. After \<^verbatim>\<open>pg.end()\<close> emptied \<^verbatim>\<open>pg.pools.all\<close>, releasing an
  unreleased handle invokes the release callback and sets the flag, and then throws the
  error of the utilization lookup to the caller of \<^verbatim>\<open>release\<close>; no metric is printed.
\<close>

theorem release_throws_lookup_error:
  "DBConnection_release 0 True (world_of ext_no_pool [handle answering_client]) =
     (Some PoolSizeError,
      \<lparr>ext = ext_no_pool, heap = [(handle answering_client)\<lparr>released := True\<rparr>],
       events = [ReleaseFn 0 True]\<rparr>)"
  by (simp add: DBConnection_release_def world_of_def handle_def pool_release_def
        ext_no_pool_def ext_one_pool_def getPoolUtilization_def)

text \<open>
  What \<^verbatim>\<open>query\<close> does on an unreleased handle, in full: a successful statement is
  handed to the callback with the flag still unset; a failed one releases with dispose
  \<open>True\<close> first, and the callback gets the error if that release returns.
\<close>

lemma query_on_unreleased_handle:
  assumes "this < length (heap w)" "\<not> released (heap w ! this)"
    and "client (heap w ! this) (erase sql) (erase values) (ext w) = ((err, res), e)"
  shows "(\<not> truthy_err err \<longrightarrow>
            DBConnection_query this sql values (ArgFun cb) w = cb Null res (w\<lparr>ext := e\<rparr>) \<and>
            \<not> released (heap (w\<lparr>ext := e\<rparr>) ! this)) \<and>
         (truthy_err err \<longrightarrow>
            getPoolUtilization (releaseFn (heap w ! this) True e) = Inr n \<longrightarrow>
            DBConnection_query this sql values (ArgFun cb) w =
              cb err None (Metrics_measure ''db.txn_conn_pool.release.count'' (int n)
                             (after_release this True (w\<lparr>ext := e\<rparr>)))) \<and>
         (truthy_err err \<longrightarrow>
            getPoolUtilization (releaseFn (heap w ! this) True e) = Inl x \<longrightarrow>
            DBConnection_query this sql values (ArgFun cb) w =
              (Some x, after_release this True (w\<lparr>ext := e\<rparr>)))"
  using assms query_success[OF assms(1,3), of cb] query_error_unreleased[OF assms, of cb]
  by simp

text \<open>
  C2 at a failing input. A statement is in flight on an unreleased handle when
  \<^verbatim>\<open>pg.end()\<close> is called; the client reports the error. \<^verbatim>\<open>query\<close> releases with
  dispose \<open>True\<close>, the lookup inside \<^verbatim>\<open>release\<close> throws, and the callback is never
  called: nothing is printed by it, and the call ends in the lookup's exception.
\<close>

theorem query_error_lost_in_release:
  "client (heap world_terminated ! 0) (ArgString ''SELECT 1 AS foo'') (ArgArray [])
     (ext world_terminated) = ((Error ''connection terminated'', None), ext_no_pool) \<and>
   \<not> released (heap world_terminated ! 0) \<and>
   DBConnection_query 0 (ArgString ''SELECT 1 AS foo'') (ArgFun printing_callback) ArgUndefined
       world_terminated =
     (Some PoolSizeError,
      \<lparr>ext = ext_no_pool, heap = [(handle terminated_client)\<lparr>released := True\<rparr>],
       events = [ReleaseFn 0 True]\<rparr>)"
  by (simp add: DBConnection_query_def DBConnection_release_def and_then_def call2_def
        erase_def world_terminated_def world_of_def handle_def terminated_client_def
        pool_release_def ext_no_pool_def ext_one_pool_def getPoolUtilization_def)

subsection \<open>begin\<close>

lemma begin_after_checkout:
  assumes "connect config (ext (setPoolSize w)) = ((err, c, r), e)"
    and "err = Null \<or> err = Undefined"
  shows "DBConnection_begin connect config cb w =
           DBConnection_query (length (heap w)) (ArgString ''BEGIN'')
             (ArgArray [])
             (ArgFun (\<lambda>err res w'.
                if truthy_err err
                then cb err None (Metrics_increment ''db.txn.begin.error'' w')
                else cb Null (Some \<lparr>conn = length (heap w)\<rparr>)
                       (Metrics_increment ''db.txn.begin.success'' w')))
             (handed_out c r (date_now (ext w)) (w\<lparr>ext := e\<rparr>))"
proof -
  have "\<not> truthy_err err"
    using assms(2) by auto
  then show ?thesis
    unfolding DBConnection_begin_def
      get_checkout_ok[where connect = connect and config = config, OF assms]
    by (simp add: query_two_arguments)
qed

lemma handed_out_frame:
  "ext (handed_out c r start w1) = ext w1"
  "heap (handed_out c r start w1) = heap w1 @ [\<lparr>client = c, releaseFn = r, released = False\<rparr>]"
  by (simp_all add: handed_out_def)

text \<open>
  What \<^verbatim>\<open>begin\<close> does once the checkout succeeded, in full. If \<^verbatim>\<open>BEGIN\<close> succeeds,
  the success metric is printed and the callback gets a transaction on the new handle.
  If \<^verbatim>\<open>BEGIN\<close> fails, the new handle is released with dispose \<open>True\<close> by the error
  path of \<^verbatim>\<open>query\<close>; if that release returns, the failure metric is printed and the
  callback gets the error and no transaction.
\<close>

lemma begin_after_checkout_statement:
  assumes "connect config (ext (setPoolSize w)) = ((err, c, r), e)"
    and "err = Null \<or> err = Undefined"
    and "c (ArgString ''BEGIN'') (ArgArray []) e = ((err', res), e')"
  shows "(\<not> truthy_err err' \<longrightarrow>
            DBConnection_begin connect config cb w =
              cb Null (Some \<lparr>conn = length (heap w)\<rparr>)
                (Metrics_increment ''db.txn.begin.success''
                   ((handed_out c r (date_now (ext w)) (w\<lparr>ext := e\<rparr>))\<lparr>ext := e'\<rparr>))) \<and>
         (truthy_err err' \<longrightarrow> getPoolUtilization (r True e') = Inr n \<longrightarrow>
            DBConnection_begin connect config cb w =
              cb err' None
                (Metrics_increment ''db.txn.begin.error''
                   (Metrics_measure ''db.txn_conn_pool.release.count'' (int n)
                      (after_release (length (heap w)) True
                         ((handed_out c r (date_now (ext w)) (w\<lparr>ext := e\<rparr>))\<lparr>ext := e'\<rparr>))))) \<and>
         (truthy_err err' \<longrightarrow> getPoolUtilization (r True e') = Inl x \<longrightarrow>
            DBConnection_begin connect config cb w =
              (Some x,
               after_release (length (heap w)) True
                 ((handed_out c r (date_now (ext w)) (w\<lparr>ext := e\<rparr>))\<lparr>ext := e'\<rparr>)))"
proof -
  let ?w6 = "handed_out c r (date_now (ext w)) (w\<lparr>ext := e\<rparr>)"
  let ?new = "length (heap w)"
  have h: "?new < length (heap ?w6)" "\<not> released (heap ?w6 ! ?new)"
    by (simp_all add: handed_out_frame)
  have q: "client (heap ?w6 ! ?new) (erase (ArgString ''BEGIN'')) (erase (ArgArray []))
             (ext ?w6) = ((err', res), e')"
    using assms(3) by (simp add: handed_out_frame erase_plain)
  have r: "releaseFn (heap ?w6 ! ?new) = r"
    by (simp add: handed_out_frame)
  show ?thesis
    unfolding begin_after_checkout[where connect = connect and config = config, OF assms(1,2)]
    using query_success[OF h(1) q] query_error_unreleased[OF h q]
    by (simp add: r)
qed

text \<open>
  C6 at a failing input. The checkout succeeds and a pool is registered; \<^verbatim>\<open>pg.end()\<close>
  is called while \<^verbatim>\<open>BEGIN\<close> is in flight, so the statement fails and
  \<^verbatim>\<open>pg.pools.all\<close> is empty. The error path of \<^verbatim>\<open>query\<close> releases the handle with
  dispose \<open>True\<close>, the lookup inside \<^verbatim>\<open>release\<close> throws, and \<^verbatim>\<open>begin\<close> neither prints
  \<^verbatim>\<open>db.txn.begin.error\<close> nor calls its callback.
\<close>

theorem begin_error_lost_in_release:
  "connect_with terminated_client ''{}'' (ext (setPoolSize (world_of ext_one_pool []))) =
     ((Null, terminated_client, pool_release), ext_one_pool) \<and>
   terminated_client (ArgString ''BEGIN'') (ArgArray []) ext_one_pool =
     ((Error ''connection terminated'', None), ext_no_pool) \<and>
   DBConnection_begin (connect_with terminated_client) ''{}'' printing_callback
       (world_of ext_one_pool []) =
     (Some PoolSizeError,
      \<lparr>ext = ext_no_pool, heap = [(handle terminated_client)\<lparr>released := True\<rparr>],
       events = [ConsoleLog ''db.txn_conn_pool.count'' 1,
                 ConsoleLog ''db.txn_conn_pool.total'' 100,
                 ConsoleLog ''db.txn_conn_pool.get'' 1,
                 ConsoleLog ''db.txn_conn_pool.get.latency'' 0,
                 ReleaseFn 0 True]\<rparr>)"
proof -
  have g: "getPoolSize ext_one_pool = 100"
    by (simp add: getPoolSize_def ext_one_pool_def parseInt10_def isWhiteSpace_def
          isDigit_def DEFAULT_CONNECTION_POOL_SIZE_def)
  have s: "setPoolSize (world_of ext_one_pool []) = world_of ext_one_pool []"
    by (simp add: setPoolSize_def world_of_def g) (simp add: ext_one_pool_def)
  show ?thesis
    unfolding DBConnection_begin_def DBConnection_get_def s
    by (simp add: DBConnection_query_def DBConnection_release_def and_then_def call2_def
          erase_def connect_with_def world_of_def handle_def terminated_client_def
          pool_release_def ext_no_pool_def ext_one_pool_def getPoolUtilization_def
          Metrics_measure_def Metrics_increment_def Metrics_timing_def)
qed

end
